theory Spec2Isabelle
  imports Complex_Main "HOL-Library.Word"
begin

section \<open>JavaScript primitives used by the editor\<close>

text \<open>
  JavaScript numbers are modelled as exact numbers: \<^typ>\<open>int\<close> where the code only ever
  holds integers (array indices, the history index, timestamps) and \<^typ>\<open>real\<close> for
  coordinates, sizes, angles and the zoom factor. Rounding of IEEE doubles is not part
  of the model.

  \<open>js_rel_index\<close> is the clamping of a relative index that \<open>Array.prototype.slice\<close> and
  \<open>Array.prototype.splice\<close> apply to their position arguments: a negative index counts
  from the end and is floored at 0, any other index is capped at the length.
\<close>

definition js_rel_index :: "int \<Rightarrow> nat \<Rightarrow> nat" where
  "js_rel_index i len = (if i < 0 then nat (max (int len + i) 0) else min (nat i) len)"

text \<open>\<open>xs.slice(start, end)\<close> and \<open>xs.slice(start)\<close>.\<close>

definition js_slice :: "'a list \<Rightarrow> int \<Rightarrow> int \<Rightarrow> 'a list" where
  "js_slice xs start end =
     (let k = js_rel_index start (length xs);
          final = js_rel_index end (length xs)
      in take (final - k) (drop k xs))"

definition js_slice_from :: "'a list \<Rightarrow> int \<Rightarrow> 'a list" where
  "js_slice_from xs start = drop (js_rel_index start (length xs)) xs"


text \<open>\<open>xs.shift()\<close>: removes the first element (nothing to remove on an empty array).\<close>

definition js_shift :: "'a list \<Rightarrow> 'a list" where
  "js_shift xs = (case xs of [] \<Rightarrow> [] | _ # rest \<Rightarrow> rest)"

text \<open>\<open>Math.round\<close>: the nearest integer, halves rounded towards positive infinity.\<close>

definition math_round :: "real \<Rightarrow> int" where
  "math_round x = \<lfloor>x + 1 / 2\<rfloor>"

section \<open>Types of the editor (\<open>types/index.ts\<close>)\<close>

datatype BlendMode =
    SourceOver | Multiply | Screen | Overlay | Darken | Lighten | ColorDodge | ColorBurn
  | HardLight | SoftLight | Difference | Exclusion | Hue | Saturation | Color | Luminosity

datatype LayerType = Raster | TextLayer | Shape | Adjustment | Group

datatype AdjustmentType =
    BrightnessContrast | HueSaturation | Levels | Curves | ColorBalance | Exposure | Vibrance

text \<open>
  Field names that would clash with another record's or with a HOL constant carry the
  record's name as a prefix (\<open>id\<close> of a layer is \<open>layer_id\<close>). Optional fields are options.
\<close>

record Layer =
  layer_id :: string
  layer_name :: string
  visible :: bool
  locked :: bool
  opacity :: real
  blendMode :: BlendMode
  layer_type :: LayerType
  thumbnail :: "string option"
  children :: "string list option"
  parentId :: "string option"
  clipMask :: "bool option"
  adjustmentType :: "AdjustmentType option"
  adjustmentValues :: "(string \<times> real) list option"

datatype Tool =
    Move | MarqueeRect | MarqueeEllipse | Lasso | LassoPoly | MagicWand | Crop | Eyedropper
  | Healing | CloneStamp | SpotRemoval | Brush | Eraser | Gradient | PaintBucket | BlurTool
  | SharpenTool | Dodge | Burn | Pen | TextTool | ShapeRect | ShapeEllipse | ShapePolygon
  | ShapeLine | Hand | Zoom | Liquify

record BrushSettings =
  brush_size :: real
  hardness :: real
  brush_opacity :: real
  flow :: real

record HistoryEntry =
  entry_id :: string
  label :: string
  timestamp :: int
  snapshot :: string

record ColorAdjustments =
  brightness :: real
  contrast :: real
  exposure :: real
  highlights :: real
  shadows :: real
  temperature :: real
  tint :: real
  hue :: real
  saturation :: real
  luminance :: real
  vibrance :: real
  clarity :: real

datatype SelectionType = SelRect | SelEllipse | SelLasso | SelMagicWand | SelNone

record Selection =
  sel_type :: SelectionType
  path :: "real list list option"
  feather :: real
  active :: bool

record DocumentInfo =
  doc_width :: real
  doc_height :: real
  doc_name :: string
  zoom :: real

text \<open>\<open>Partial<DocumentInfo>\<close>: every field may be absent.\<close>

record PartialDocumentInfo =
  p_width :: "real option"
  p_height :: "real option"
  p_name :: "string option"
  p_zoom :: "real option"

section \<open>The editor store (\<open>stores/editorStore.ts\<close>)\<close>

text \<open>
  The data fields of \<open>EditorState\<close>. The store keeps a reference to the Fabric canvas;
  the reference is an opaque handle here and the canvas itself is a value of its own
  (section on the canvas below). The commands of the store are functions from state to
  state: \<open>set\<close> of zustand merges the returned fields into the state, which is a record
  update.
\<close>

type_synonym canvas_ref = nat

record EditorState =
  document :: DocumentInfo
  layers :: "Layer list"
  activeLayerId :: "string option"
  activeTool :: Tool
  previousTool :: Tool
  brushSettings :: BrushSettings
  foregroundColor :: string
  backgroundColor :: string
  history :: "HistoryEntry list"
  historyIndex :: int
  maxHistory :: int
  selection :: Selection
  adjustments :: ColorAdjustments
  showGrid :: bool
  showRulers :: bool
  showGuides :: bool
  snapToGrid :: bool
  fabricCanvas :: "canvas_ref option"

definition defaultAdjustments :: ColorAdjustments where
  "defaultAdjustments =
     \<lparr>brightness = 0, contrast = 0, exposure = 0, highlights = 0, shadows = 0,
      temperature = 0, tint = 0, hue = 0, saturation = 0, luminance = 0, vibrance = 0,
      clarity = 0\<rparr>"

text \<open>The state the store is created with.\<close>

definition initialState :: EditorState where
  "initialState =
     \<lparr>document = \<lparr>doc_width = 1920, doc_height = 1080, doc_name = ''Untitled'', zoom = 1\<rparr>,
      layers = [],
      activeLayerId = None,
      activeTool = Move,
      previousTool = Move,
      brushSettings = \<lparr>brush_size = 20, hardness = 100, brush_opacity = 1, flow = 1\<rparr>,
      foregroundColor = ''#000000'',
      backgroundColor = ''#ffffff'',
      history = [],
      historyIndex = - 1,
      maxHistory = 50,
      selection = \<lparr>sel_type = SelNone, path = None, feather = 0, active = False\<rparr>,
      adjustments = defaultAdjustments,
      showGrid = False,
      showRulers = True,
      showGuides = True,
      snapToGrid = False,
      fabricCanvas = None\<rparr>"

text \<open>\<open>{ ...s.document, ...doc }\<close>: a field of the partial that is present wins.\<close>

definition mergeDocument :: "DocumentInfo \<Rightarrow> PartialDocumentInfo \<Rightarrow> DocumentInfo" where
  "mergeDocument d p =
     \<lparr>doc_width = (case p_width p of Some w \<Rightarrow> w | None \<Rightarrow> doc_width d),
      doc_height = (case p_height p of Some h \<Rightarrow> h | None \<Rightarrow> doc_height d),
      doc_name = (case p_name p of Some n \<Rightarrow> n | None \<Rightarrow> doc_name d),
      zoom = (case p_zoom p of Some z \<Rightarrow> z | None \<Rightarrow> zoom d)\<rparr>"

definition setDocument :: "PartialDocumentInfo \<Rightarrow> EditorState \<Rightarrow> EditorState" where
  "setDocument doc s = s\<lparr>document := mergeDocument (document s) doc\<rparr>"

definition setForegroundColor :: "string \<Rightarrow> EditorState \<Rightarrow> EditorState" where
  "setForegroundColor color s = s\<lparr>foregroundColor := color\<rparr>"

text \<open>
  \<open>removeLayer\<close>: both fields of the result are computed from the state \<open>s\<close> before the
  call; \<open>s.layers[0]?.id ?? null\<close> reads the first layer of \<open>s.layers\<close>.
\<close>

definition removeLayer :: "string \<Rightarrow> EditorState \<Rightarrow> EditorState" where
  "removeLayer ident s =
     s\<lparr>layers := filter (\<lambda>l. layer_id l \<noteq> ident) (layers s),
       activeLayerId :=
         (if activeLayerId s = Some ident
          then (case layers s of [] \<Rightarrow> None | l # _ \<Rightarrow> Some (layer_id l))
          else activeLayerId s)\<rparr>"


text \<open>
  \<open>pushHistory\<close>; the fresh \<open>uuid()\<close> and \<open>Date.now()\<close> are arguments of the model.
\<close>

definition pushHistory :: "string \<Rightarrow> string \<Rightarrow> string \<Rightarrow> int \<Rightarrow> EditorState \<Rightarrow> EditorState" where
  "pushHistory lbl snap uuid now s =
     (let sliced = js_slice (history s) 0 (historyIndex s + 1);
          pushed = sliced @ [\<lparr>entry_id = uuid, label = lbl, timestamp = now, snapshot = snap\<rparr>];
          newHistory = (if int (length pushed) > maxHistory s then js_shift pushed else pushed)
      in s\<lparr>history := newHistory, historyIndex := int (length newHistory) - 1\<rparr>)"

definition undo :: "EditorState \<Rightarrow> EditorState" where
  "undo s = s\<lparr>historyIndex := max 0 (historyIndex s - 1)\<rparr>"

definition redo :: "EditorState \<Rightarrow> EditorState" where
  "redo s = s\<lparr>historyIndex := min (int (length (history s)) - 1) (historyIndex s + 1)\<rparr>"

definition canUndo :: "EditorState \<Rightarrow> bool" where
  "canUndo s = (historyIndex s > 0)"

definition canRedo :: "EditorState \<Rightarrow> bool" where
  "canRedo s = (historyIndex s < int (length (history s)) - 1)"

text \<open>A call of one of the three history commands, and a sequence of calls in order.\<close>

datatype HistoryCall = PushHistory string string string int | Undo | Redo

fun call :: "HistoryCall \<Rightarrow> EditorState \<Rightarrow> EditorState" where
  "call (PushHistory lbl snap uuid now) s = pushHistory lbl snap uuid now s"
| "call Undo s = undo s"
| "call Redo s = redo s"

definition calls :: "HistoryCall list \<Rightarrow> EditorState \<Rightarrow> EditorState" where
  "calls cs s = foldl (\<lambda>st c. call c st) s cs"

definition isPush :: "HistoryCall \<Rightarrow> bool" where
  "isPush c = (case c of PushHistory _ _ _ _ \<Rightarrow> True | _ \<Rightarrow> False)"

section \<open>The Fabric canvas as the editor uses it\<close>

text \<open>
  Of a Fabric object the editor reads and writes the position, the size, the scale, the
  angle, the fill and its own marker \<open>_isDocBackground\<close>. Fabric gives every object numeric
  \<open>left\<close>, \<open>top\<close>, \<open>width\<close>, \<open>height\<close>, \<open>scaleX\<close>, \<open>scaleY\<close> and \<open>angle\<close> when it is built, so
  the fallbacks \<open>?? 0\<close> and \<open>?? 1\<close> of the code never apply and the fields are plain numbers.
\<close>

record FabricObject =
  obj_left :: real
  obj_top :: real
  obj_width :: real
  obj_height :: real
  scaleX :: real
  scaleY :: real
  angle :: real
  fill :: string
  isDocBackground :: bool

text \<open>
  \<open>canvas.getActiveObject()\<close> is a reference: to one of the canvas's objects (its index
  in \<open>getObjects()\<close>) or to an \<open>ActiveSelection\<close>, an object of its own that is not in
  \<open>getObjects()\<close>.
\<close>

datatype ActiveObject = ActiveMember nat | ActiveSelection FabricObject

text \<open>\<open>viewportTransform\<close>, an array of six numbers; \<open>vpt[i]\<close> is the field \<open>vpt_i\<close>.\<close>

record TMat2D =
  vpt_0 :: real
  vpt_1 :: real
  vpt_2 :: real
  vpt_3 :: real
  vpt_4 :: real
  vpt_5 :: real

record Canvas =
  objects :: "FabricObject list"
  activeObject :: "ActiveObject option"
  viewportTransform :: "TMat2D option"
  canvasWidth :: real
  canvasHeight :: real
  retinaScaling :: real
  elementWidth :: int
  elementHeight :: int

record Point =
  px :: real
  py :: real

text \<open>
  \<open>ctx.getImageData(x, y, 1, 1).data\<close>: the four bytes of one pixel. What the context
  holds is the rendering, which belongs to Fabric; the model takes it as a function.
\<close>

record PixelData =
  data_0 :: "8 word"
  data_1 :: "8 word"
  data_2 :: "8 word"
  data_3 :: "8 word"

type_synonym RenderingContext = "int \<Rightarrow> int \<Rightarrow> PixelData"

datatype JsError = TypeError

text \<open>
  \<open>xs.find(p)\<close> returns a reference to the first element that satisfies \<open>p\<close>, and a later
  \<open>set\<close> on it changes that element in place: \<open>update_first\<close>. \<open>find\<close> itself is
  \<^const>\<open>List.find\<close>.
\<close>

fun update_first :: "('a \<Rightarrow> bool) \<Rightarrow> ('a \<Rightarrow> 'a) \<Rightarrow> 'a list \<Rightarrow> 'a list" where
  "update_first p f [] = []"
| "update_first p f (x # xs) = (if p x then f x # xs else x # update_first p f xs)"

subsection \<open>Crop (\<open>applyCrop\<close>, \<open>CanvasToolHandler.tsx\<close>)\<close>

text \<open>
  \<open>applyCrop\<close> reads the overlay rectangle first, returns at once when it is narrower
  or lower than 1, and otherwise shifts every object, then places the background
  rectangle (the first object marked as background), then calls \<open>setDocument\<close> with
  the rounded size. Its parameter \<open>doc\<close> only supplies the fallbacks for an overlay
  without width or height, which do not apply; \<open>setDocument\<close> is the store's command.
\<close>

definition applyCrop :: "Canvas \<Rightarrow> FabricObject \<Rightarrow> EditorState \<Rightarrow> Canvas \<times> EditorState" where
  "applyCrop canvas cropRect s =
     (let cl = obj_left cropRect; ct = obj_top cropRect;
          cw = obj_width cropRect; ch = obj_height cropRect
      in if cw < 1 \<or> ch < 1 then (canvas, s)
         else
           (let shifted = map (\<lambda>obj. obj\<lparr>obj_left := obj_left obj - cl, obj_top := obj_top obj - ct\<rparr>)
                              (objects canvas);
                placed = update_first isDocBackground
                           (\<lambda>bgRect. bgRect\<lparr>obj_left := 0, obj_top := 0, obj_width := cw, obj_height := ch\<rparr>)
                           shifted
            in (canvas\<lparr>objects := placed\<rparr>,
                setDocument \<lparr>p_width = Some (of_int (math_round cw)),
                             p_height = Some (of_int (math_round ch)),
                             p_name = None, p_zoom = None\<rparr> s)))"

subsection \<open>Rotation (\<open>rotateCanvas\<close>)\<close>

text \<open>The remainder operator \<open>%\<close> of JavaScript: the quotient is truncated towards zero.\<close>

definition js_rem :: "real \<Rightarrow> real \<Rightarrow> real" where
  "js_rem x y = x - y * of_int (if 0 \<le> x / y then \<lfloor>x / y\<rfloor> else \<lceil>x / y\<rceil>)"

definition docW :: "Canvas \<Rightarrow> real" where
  "docW canvas = (case find isDocBackground (objects canvas) of
                    Some bgRect \<Rightarrow> obj_width bgRect | None \<Rightarrow> canvasWidth canvas)"

definition docH :: "Canvas \<Rightarrow> real" where
  "docH canvas = (case find isDocBackground (objects canvas) of
                    Some bgRect \<Rightarrow> obj_height bgRect | None \<Rightarrow> canvasHeight canvas)"

text \<open>The centre of an object as \<open>rotateCanvas\<close> computes it (\<open>cx\<close>, \<open>cy\<close>).\<close>

definition centerX :: "FabricObject \<Rightarrow> real" where
  "centerX obj = obj_left obj + (obj_width obj * scaleX obj) / 2"

definition centerY :: "FabricObject \<Rightarrow> real" where
  "centerY obj = obj_top obj + (obj_height obj * scaleY obj) / 2"

text \<open>The body of the \<open>forEach\<close> of \<open>rotateCanvas\<close>, for one object.\<close>

definition rotateObject :: "real \<Rightarrow> real \<Rightarrow> real \<Rightarrow> real \<Rightarrow> FabricObject \<Rightarrow> FabricObject" where
  "rotateObject dW dH normalized degrees obj =
     (if isDocBackground obj then obj
      else
        (let cx = centerX obj; cy = centerY obj;
             (newCx, newCy) =
               (if normalized = 90 then (dH - cy, cx)
                else if normalized = 180 then (dW - cx, dH - cy)
                else if normalized = 270 then (cy, dW - cx)
                else
                  (let rad = (degrees * pi) / 180;
                       c = cos rad; sn = sin rad;
                       dcx = dW / 2; dcy = dH / 2
                   in (c * (cx - dcx) - sn * (cy - dcy) + dcx,
                       sn * (cx - dcx) + c * (cy - dcy) + dcy)))
         in obj\<lparr>obj_left := newCx - (obj_width obj * scaleX obj) / 2,
                obj_top := newCy - (obj_height obj * scaleY obj) / 2,
                angle := angle obj + degrees\<rparr>))"

definition rotateCanvas :: "real \<Rightarrow> Canvas \<Rightarrow> Canvas" where
  "rotateCanvas degrees canvas =
     (let dW = docW canvas; dH = docH canvas;
          normalized = js_rem (js_rem degrees 360 + 360) 360;
          rotated = map (rotateObject dW dH normalized degrees) (objects canvas)
      in canvas\<lparr>objects :=
           (if normalized = 90 \<or> normalized = 270
            then update_first isDocBackground
                   (\<lambda>bgRect. bgRect\<lparr>obj_left := 0, obj_top := 0, obj_width := dH, obj_height := dW\<rparr>)
                   rotated
            else rotated)\<rparr>)"

subsection \<open>The zoom tool (\<open>handleMouseDown\<close>, case \<open>'zoom'\<close>)\<close>

text \<open>
  \<open>handleMouseDown\<close> with the zoom tool active: nothing happens without a canvas;
  otherwise the zoom is multiplied or divided by 1.25, clamped, and handed to
  \<open>setDocument\<close>.
\<close>

definition handleMouseDown_zoom :: "bool \<Rightarrow> EditorState \<Rightarrow> EditorState" where
  "handleMouseDown_zoom altKey s =
     (if fabricCanvas s = None then s
      else
        (let dir = (if altKey then 1 / 1.25 else 1.25);
             newZoom = min 32 (max 0.05 (zoom (document s) * dir))
         in setDocument \<lparr>p_width = None, p_height = None, p_name = None, p_zoom = Some newZoom\<rparr> s))"

subsection \<open>The eyedropper (\<open>sampleColor\<close>)\<close>

text \<open>\<open>n.toString(16)\<close> for a non-negative integer, and the colour string built from a pixel.\<close>

definition hexDigit :: "nat \<Rightarrow> char" where
  "hexDigit d = ''0123456789abcdef'' ! d"

fun toString16 :: "nat \<Rightarrow> string" where
  "toString16 n = (if n < 16 then [hexDigit n] else toString16 (n div 16) @ [hexDigit (n mod 16)])"

declare toString16.simps [simp del]

text \<open>
  \<open>'#' + ((1 << 24) + (pixel[0] << 16) + (pixel[1] << 8) + pixel[2]).toString(16).slice(1)\<close>;
  the sum stays below \<open>2 ^ 25\<close>, so the 32-bit shifts do not wrap.
\<close>

definition pixelHex :: "PixelData \<Rightarrow> string" where
  "pixelHex pixel =
     CHR ''#'' #
     js_slice_from
       (toString16 (push_bit 24 1 + push_bit 16 (unat (data_0 pixel))
                    + push_bit 8 (unat (data_1 pixel)) + unat (data_2 pixel)))
       1"

text \<open>
  \<open>sampleColor\<close> of \<open>components/canvas/CanvasToolHandler.tsx\<close>. The context is fetched
  first and used after the check of the viewport transform; a missing context makes
  \<open>ctx.getImageData\<close> throw.
\<close>

definition sampleColor ::
  "RenderingContext option \<Rightarrow> Canvas \<Rightarrow> Point \<Rightarrow> EditorState \<Rightarrow> JsError + EditorState" where
  "sampleColor ctx canvas pointer s =
     (case viewportTransform canvas of
        None \<Rightarrow> Inr s
      | Some vpt \<Rightarrow>
          (let screenX = px pointer * vpt_0 vpt + vpt_4 vpt;
               screenY = py pointer * vpt_3 vpt + vpt_5 vpt
           in case ctx of
                None \<Rightarrow> Inl TypeError
              | Some getImageData \<Rightarrow>
                  (let pixel = getImageData (math_round screenX) (math_round screenY)
                   in Inr (setForegroundColor (pixelHex pixel) s))))"

text \<open>
  The sources hold a second copy of the tool handler (after the history panel and the
  editor canvas, in \<open>components/panels/HistoryPanel.tsx\<close>), whose \<open>handlePaintBucket\<close>
  takes the pointer. Its \<open>sampleColor\<close> renders, checks the context, scales by the
  retina factor (\<open>getRetinaScaling() || 1\<close>), checks the bounds of the canvas element
  and skips a pixel whose alpha is 0.
\<close>

definition sampleColor_v2 ::
  "RenderingContext option \<Rightarrow> Canvas \<Rightarrow> Point \<Rightarrow> EditorState \<Rightarrow> EditorState" where
  "sampleColor_v2 ctx canvas pointer s =
     (case ctx of
        None \<Rightarrow> s
      | Some getImageData \<Rightarrow>
          (case viewportTransform canvas of
             None \<Rightarrow> s
           | Some vpt \<Rightarrow>
               (let screenX = px pointer * vpt_0 vpt + vpt_4 vpt;
                    screenY = py pointer * vpt_3 vpt + vpt_5 vpt;
                    ratio = (if retinaScaling canvas = 0 then 1 else retinaScaling canvas);
                    x = math_round (screenX * ratio);
                    y = math_round (screenY * ratio)
                in if x < 0 \<or> y < 0 \<or> x \<ge> elementWidth canvas \<or> y \<ge> elementHeight canvas then s
                   else
                     (let pixel = getImageData x y
                      in if data_3 pixel = 0 then s
                         else setForegroundColor (pixelHex pixel) s))))"

subsection \<open>The paint bucket (\<open>handlePaintBucket\<close>)\<close>

definition setFill :: "string \<Rightarrow> FabricObject \<Rightarrow> FabricObject" where
  "setFill color obj = obj\<lparr>fill := color\<rparr>"

text \<open>
  \<open>handlePaintBucket\<close> of \<open>components/canvas/CanvasToolHandler.tsx\<close>: it takes the canvas
  and the colour, not the pointer.
\<close>

definition handlePaintBucket :: "Canvas \<Rightarrow> string \<Rightarrow> Canvas" where
  "handlePaintBucket canvas color =
     (case activeObject canvas of
        Some (ActiveMember i) \<Rightarrow>
          canvas\<lparr>objects := (if i < length (objects canvas)
                               then (objects canvas)[i := setFill color (objects canvas ! i)]
                               else objects canvas)\<rparr>
      | Some (ActiveSelection sel) \<Rightarrow>
          canvas\<lparr>activeObject := Some (ActiveSelection (setFill color sel))\<rparr>
      | None \<Rightarrow>
          canvas\<lparr>objects := update_first isDocBackground (setFill color) (objects canvas)\<rparr>)"

text \<open>
  \<open>handlePaintBucket\<close> of the second copy of the tool handler, which takes the pointer.
  \<open>containsPoint\<close> is Fabric's hit test, a parameter of the model. A selected object
  that is not the background is filled; otherwise the loop runs from the last object
  (the top-most) down to the first and fills the first hit that is not a background;
  otherwise the background rectangle is filled. \<open>topmostHit objs n\<close> is the loop with
  \<open>i = n - 1\<close> as its next index.
\<close>

fun topmostHit :: "(FabricObject \<Rightarrow> bool) \<Rightarrow> FabricObject list \<Rightarrow> nat \<Rightarrow> nat option" where
  "topmostHit hit objs 0 = None"
| "topmostHit hit objs (Suc i) =
     (if isDocBackground (objs ! i) then topmostHit hit objs i
      else if hit (objs ! i) then Some i
      else topmostHit hit objs i)"

definition activeIsBackground :: "Canvas \<Rightarrow> ActiveObject \<Rightarrow> bool" where
  "activeIsBackground canvas a =
     (case a of ActiveMember i \<Rightarrow> isDocBackground (objects canvas ! i)
              | ActiveSelection sel \<Rightarrow> isDocBackground sel)"

definition fillBelowPointer ::
  "(FabricObject \<Rightarrow> Point \<Rightarrow> bool) \<Rightarrow> Canvas \<Rightarrow> string \<Rightarrow> Point option \<Rightarrow> Canvas" where
  "fillBelowPointer containsPoint canvas color pointer =
     (case (case pointer of
              None \<Rightarrow> None
            | Some p \<Rightarrow> topmostHit (\<lambda>obj. containsPoint obj p) (objects canvas)
                         (length (objects canvas))) of
        Some i \<Rightarrow> canvas\<lparr>objects := (objects canvas)[i := setFill color (objects canvas ! i)]\<rparr>
      | None \<Rightarrow> canvas\<lparr>objects := update_first isDocBackground (setFill color) (objects canvas)\<rparr>)"

definition handlePaintBucket_v2 ::
  "(FabricObject \<Rightarrow> Point \<Rightarrow> bool) \<Rightarrow> Canvas \<Rightarrow> string \<Rightarrow> Point option \<Rightarrow> Canvas" where
  "handlePaintBucket_v2 containsPoint canvas color pointer =
     (case activeObject canvas of
        None \<Rightarrow> fillBelowPointer containsPoint canvas color pointer
      | Some a \<Rightarrow>
          (if activeIsBackground canvas a then fillBelowPointer containsPoint canvas color pointer
           else
             (case a of
                ActiveMember i \<Rightarrow>
                  canvas\<lparr>objects := (if i < length (objects canvas)
                                       then (objects canvas)[i := setFill color (objects canvas ! i)]
                                       else objects canvas)\<rparr>
              | ActiveSelection sel \<Rightarrow>
                  canvas\<lparr>activeObject := Some (ActiveSelection (setFill color sel))\<rparr>)))"

section \<open>Auxiliary definitions for the statements\<close>

text \<open>
  A layer as \<open>addLayer\<close> builds it from its defaults (visible, unlocked, opacity 1, blend
  mode \<open>source-over\<close>, type \<open>raster\<close>), with a given identifier and name.
\<close>

definition rasterLayer :: "string \<Rightarrow> string \<Rightarrow> Layer" where
  "rasterLayer ident nm =
     \<lparr>layer_id = ident, layer_name = nm, visible = True, locked = False, opacity = 1,
      blendMode = SourceOver, layer_type = Raster, thumbnail = None, children = None,
      parentId = None, clipMask = None, adjustmentType = None, adjustmentValues = None\<rparr>"

text \<open>
  What the three history commands keep true of the store, starting from the initial
  state: the bound is 50, the log is no longer than the bound, and the index is \<open>-1\<close> or
  \<open>0\<close> while the log is empty and a position of the log otherwise.
\<close>

definition historyInvariant :: "EditorState \<Rightarrow> bool" where
  "historyInvariant s =
     (maxHistory s = 50 \<and> length (history s) \<le> 50 \<and> - 1 \<le> historyIndex s \<and>
      historyIndex s \<le> max 0 (int (length (history s)) - 1) \<and>
      (history s = [] \<or> 0 \<le> historyIndex s))"

text \<open>
  Concrete inputs for the evaluated statements: a 200 by 200 white background
  rectangle, a blue object at \<open>(15, 15)\<close>, a crop overlay at \<open>(10, 10)\<close> of size 100 by 50,
  a canvas holding the background and the object under the identity viewport, and a
  store whose document is 200 by 200 with a canvas mounted.
\<close>

definition exampleBackground :: FabricObject where
  "exampleBackground =
     \<lparr>obj_left = 0, obj_top = 0, obj_width = 200, obj_height = 200, scaleX = 1, scaleY = 1,
      angle = 0, fill = ''#ffffff'', isDocBackground = True\<rparr>"

definition exampleObject :: FabricObject where
  "exampleObject =
     \<lparr>obj_left = 15, obj_top = 15, obj_width = 40, obj_height = 20, scaleX = 1, scaleY = 1,
      angle = 0, fill = ''#0000ff'', isDocBackground = False\<rparr>"

definition exampleCropRect :: FabricObject where
  "exampleCropRect =
     \<lparr>obj_left = 10, obj_top = 10, obj_width = 100, obj_height = 50, scaleX = 1, scaleY = 1,
      angle = 0, fill = ''transparent'', isDocBackground = False\<rparr>"

definition exampleCanvas :: Canvas where
  "exampleCanvas =
     \<lparr>objects = [exampleBackground, exampleObject],
      activeObject = None,
      viewportTransform = Some \<lparr>vpt_0 = 1, vpt_1 = 0, vpt_2 = 0, vpt_3 = 1, vpt_4 = 0, vpt_5 = 0\<rparr>,
      canvasWidth = 800, canvasHeight = 600, retinaScaling = 1,
      elementWidth = 800, elementHeight = 600\<rparr>"

definition exampleState :: EditorState where
  "exampleState =
     initialState\<lparr>document := \<lparr>doc_width = 200, doc_height = 200, doc_name = ''Untitled'', zoom = 1\<rparr>,
                  fabricCanvas := Some 0\<rparr>"

text \<open>
  A hit test for the examples: the point lies in the axis-parallel box of the object
  (what Fabric's \<open>containsPoint\<close> answers for an object that is not rotated).
\<close>

definition boxContainsPoint :: "FabricObject \<Rightarrow> Point \<Rightarrow> bool" where
  "boxContainsPoint obj p =
     (obj_left obj \<le> px p \<and> px p \<le> obj_left obj + obj_width obj * scaleX obj \<and>
      obj_top obj \<le> py p \<and> py p \<le> obj_top obj + obj_height obj * scaleY obj)"

section \<open>Layers\<close>

text \<open>
  What \<open>removeLayer\<close> does in general: the layer with the given identifier is gone, and
  the active identifier is replaced only when it names the removed layer, by the
  identifier of the first layer of the sequence before the removal.
\<close>

lemma removeLayer_layers:
  "ident \<notin> layer_id ` set (layers (removeLayer ident s))"
  by (auto simp add: removeLayer_def)

lemma removeLayer_active_first:
  "layers s = l # ls \<Longrightarrow> activeLayerId s = Some (layer_id l) \<Longrightarrow>
   activeLayerId (removeLayer (layer_id l) s) = Some (layer_id l)"
  by (simp add: removeLayer_def)

lemma removeLayer_active_later:
  "layers s = l # ls \<Longrightarrow> activeLayerId s = Some ident \<Longrightarrow> layer_id l \<noteq> ident \<Longrightarrow>
   activeLayerId (removeLayer ident s) = Some (layer_id l)
   \<and> hd (layers (removeLayer ident s)) = l"
  by (simp add: removeLayer_def)

text \<open>
  C1 (removing the active layer activates the first remaining layer, or null; the
  active identifier is never the removed one). Evaluated on the code: with layers
  \<open>A, B\<close> and \<open>A\<close> active, \<open>removeLayer(A)\<close> leaves the layers \<open>B\<close> and the active
  identifier \<open>A\<close>, the layer just removed; with the single layer \<open>A\<close> active, it leaves no
  layer and the active identifier \<open>A\<close>.
\<close>

theorem removeLayer_first_active_keeps_removed_id:
  "map layer_id (layers (removeLayer ''A''
      (initialState\<lparr>layers := [rasterLayer ''A'' ''Background'', rasterLayer ''B'' ''Layer 2''],
                    activeLayerId := Some ''A''\<rparr>))) = [''B'']
   \<and> activeLayerId (removeLayer ''A''
      (initialState\<lparr>layers := [rasterLayer ''A'' ''Background'', rasterLayer ''B'' ''Layer 2''],
                    activeLayerId := Some ''A''\<rparr>)) = Some ''A''
   \<and> layers (removeLayer ''A''
      (initialState\<lparr>layers := [rasterLayer ''A'' ''Background''],
                    activeLayerId := Some ''A''\<rparr>)) = []
   \<and> activeLayerId (removeLayer ''A''
      (initialState\<lparr>layers := [rasterLayer ''A'' ''Background''],
                    activeLayerId := Some ''A''\<rparr>)) = Some ''A''"
  by (simp add: removeLayer_def rasterLayer_def initialState_def)









section \<open>The document and its zoom\<close>

lemma setDocument_zoom:
  "zoom (document (setDocument p s)) = (case p_zoom p of Some z \<Rightarrow> z | None \<Rightarrow> zoom (document s))"
  by (simp add: setDocument_def mergeDocument_def)

lemma handleMouseDown_zoom_clamped:
  "fabricCanvas s \<noteq> None \<Longrightarrow>
   0.05 \<le> zoom (document (handleMouseDown_zoom altKey s))
   \<and> zoom (document (handleMouseDown_zoom altKey s)) \<le> 32"
  by (auto simp add: handleMouseDown_zoom_def setDocument_zoom Let_def)

text \<open>
  C2, as the code has it: \<open>setDocument\<close> stores a supplied zoom as it is given and keeps
  the old zoom when none is supplied, so it keeps the zoom within \<open>[0.05, 32]\<close> when the
  prior zoom and the supplied zoom (if any) are within it. The clamp is in the zoom
  tool's click handler: with a canvas mounted, the zoom after a click is within
  \<open>[0.05, 32]\<close> whatever it was before; without a canvas the click changes nothing.
\<close>

theorem setDocument_stores_zoom_and_zoom_tool_clamps:
  "zoom (document (setDocument p s)) = (case p_zoom p of Some z \<Rightarrow> z | None \<Rightarrow> zoom (document s))
   \<and> (0.05 \<le> zoom (document s) \<and> zoom (document s) \<le> 32
        \<and> (case p_zoom p of Some z \<Rightarrow> 0.05 \<le> z \<and> z \<le> 32 | None \<Rightarrow> True)
      \<longrightarrow> 0.05 \<le> zoom (document (setDocument p s)) \<and> zoom (document (setDocument p s)) \<le> 32)
   \<and> (fabricCanvas s \<noteq> None
      \<longrightarrow> 0.05 \<le> zoom (document (handleMouseDown_zoom altKey s))
          \<and> zoom (document (handleMouseDown_zoom altKey s)) \<le> 32)
   \<and> (fabricCanvas s = None \<longrightarrow> handleMouseDown_zoom altKey s = s)"
proof -
  have a: "zoom (document (setDocument p s)) = (case p_zoom p of Some z \<Rightarrow> z | None \<Rightarrow> zoom (document s))"
    by (rule setDocument_zoom)
  have b: "0.05 \<le> zoom (document s) \<and> zoom (document s) \<le> 32
        \<and> (case p_zoom p of Some z \<Rightarrow> 0.05 \<le> z \<and> z \<le> 32 | None \<Rightarrow> True)
      \<longrightarrow> 0.05 \<le> zoom (document (setDocument p s)) \<and> zoom (document (setDocument p s)) \<le> 32"
    by (cases "p_zoom p") (simp_all add: setDocument_zoom)
  have c: "fabricCanvas s \<noteq> None
      \<longrightarrow> 0.05 \<le> zoom (document (handleMouseDown_zoom altKey s))
          \<and> zoom (document (handleMouseDown_zoom altKey s)) \<le> 32"
    using handleMouseDown_zoom_clamped by blast
  have d: "fabricCanvas s = None \<longrightarrow> handleMouseDown_zoom altKey s = s"
    by (simp add: handleMouseDown_zoom_def)
  show ?thesis
    using a b c d by blast
qed

theorem setDocument_stores_zoom_and_zoom_tool_clamps_witness:
  "zoom (document (setDocument \<lparr>p_width = None, p_height = None, p_name = None, p_zoom = Some 2\<rparr>
                     (initialState\<lparr>fabricCanvas := Some 0\<rparr>))) = 2
   \<and> fabricCanvas (initialState\<lparr>fabricCanvas := Some 0\<rparr>) \<noteq> None
   \<and> zoom (document (handleMouseDown_zoom False (initialState\<lparr>fabricCanvas := Some 0\<rparr>))) = 1.25
   \<and> 0.05 \<le> zoom (document (handleMouseDown_zoom False (initialState\<lparr>fabricCanvas := Some 0\<rparr>)))
   \<and> zoom (document (handleMouseDown_zoom False (initialState\<lparr>fabricCanvas := Some 0\<rparr>))) \<le> 32
   \<and> fabricCanvas initialState = None
   \<and> handleMouseDown_zoom False initialState = initialState"
proof -
  have c: "fabricCanvas (initialState\<lparr>fabricCanvas := Some 0\<rparr>) \<noteq> None"
    by simp
  have n: "fabricCanvas initialState = None"
    by (simp add: initialState_def)
  have z: "zoom (document (handleMouseDown_zoom False (initialState\<lparr>fabricCanvas := Some 0\<rparr>))) = 1.25"
    by (simp add: handleMouseDown_zoom_def setDocument_def mergeDocument_def initialState_def Let_def)
  from setDocument_stores_zoom_and_zoom_tool_clamps
         [of "\<lparr>p_width = None, p_height = None, p_name = None, p_zoom = Some 2\<rparr>"
             "initialState\<lparr>fabricCanvas := Some 0\<rparr>" False]
       setDocument_stores_zoom_and_zoom_tool_clamps
         [of "\<lparr>p_width = None, p_height = None, p_name = None, p_zoom = None\<rparr>" initialState False]
       c n z
  show ?thesis
    by simp
qed

text \<open>
  The claim C2 as stated fails: the initial zoom 1 is within the bound, and after
  \<open>setDocument({zoom: 100})\<close> the zoom is 100.
\<close>

theorem setDocument_does_not_clamp_zoom:
  "0.05 \<le> zoom (document initialState) \<and> zoom (document initialState) \<le> 32
   \<and> zoom (document (setDocument \<lparr>p_width = None, p_height = None, p_name = None, p_zoom = Some 100\<rparr>
                        initialState)) = 100
   \<and> \<not> zoom (document (setDocument \<lparr>p_width = None, p_height = None, p_name = None, p_zoom = Some 100\<rparr>
                          initialState)) \<le> 32"
  by (simp add: setDocument_def mergeDocument_def initialState_def)

section \<open>Frame of undo and redo\<close>

text \<open>
  C10: \<open>undo\<close> and \<open>redo\<close> write the field \<open>historyIndex\<close> and nothing else: the history
  array with its entries and every other field of the store are the same before and
  after, and each result is the state with only the index replaced.
\<close>

theorem undo_redo_change_only_historyIndex:
  "history (undo s) = history s \<and> history (redo s) = history s
   \<and> maxHistory (undo s) = maxHistory s \<and> maxHistory (redo s) = maxHistory s
   \<and> document (undo s) = document s \<and> document (redo s) = document s
   \<and> layers (undo s) = layers s \<and> layers (redo s) = layers s
   \<and> activeLayerId (undo s) = activeLayerId s \<and> activeLayerId (redo s) = activeLayerId s
   \<and> selection (undo s) = selection s \<and> selection (redo s) = selection s
   \<and> foregroundColor (undo s) = foregroundColor s \<and> foregroundColor (redo s) = foregroundColor s
   \<and> backgroundColor (undo s) = backgroundColor s \<and> backgroundColor (redo s) = backgroundColor s
   \<and> activeTool (undo s) = activeTool s \<and> activeTool (redo s) = activeTool s
   \<and> previousTool (undo s) = previousTool s \<and> previousTool (redo s) = previousTool s
   \<and> brushSettings (undo s) = brushSettings s \<and> brushSettings (redo s) = brushSettings s
   \<and> adjustments (undo s) = adjustments s \<and> adjustments (redo s) = adjustments s
   \<and> showGrid (undo s) = showGrid s \<and> showGrid (redo s) = showGrid s
   \<and> showRulers (undo s) = showRulers s \<and> showRulers (redo s) = showRulers s
   \<and> showGuides (undo s) = showGuides s \<and> showGuides (redo s) = showGuides s
   \<and> snapToGrid (undo s) = snapToGrid s \<and> snapToGrid (redo s) = snapToGrid s
   \<and> fabricCanvas (undo s) = fabricCanvas s \<and> fabricCanvas (redo s) = fabricCanvas s
   \<and> undo s = s\<lparr>historyIndex := max 0 (historyIndex s - 1)\<rparr>
   \<and> redo s = s\<lparr>historyIndex := min (int (length (history s)) - 1) (historyIndex s + 1)\<rparr>"
  by (simp add: undo_def redo_def)

section \<open>The history log\<close>

lemma js_slice_prefix: "- 1 \<le> i \<Longrightarrow> js_slice xs 0 (i + 1) = take (nat (i + 1)) xs"
  by (simp add: js_slice_def js_rel_index_def min_def)

lemma js_shift_tl: "js_shift xs = tl xs"
  by (cases xs) (simp_all add: js_shift_def)

lemma pushHistory_history:
  "- 1 \<le> historyIndex s \<Longrightarrow>
   history (pushHistory lbl snap uuid now s) =
     (let pushed = take (nat (historyIndex s + 1)) (history s)
                   @ [\<lparr>entry_id = uuid, label = lbl, timestamp = now, snapshot = snap\<rparr>]
      in if int (length pushed) > maxHistory s then tl pushed else pushed)"
  by (simp add: pushHistory_def js_slice_prefix js_shift_tl Let_def)

lemma pushHistory_index:
  "historyIndex (pushHistory lbl snap uuid now s) =
     int (length (history (pushHistory lbl snap uuid now s))) - 1"
  by (simp add: pushHistory_def Let_def)

lemma pushHistory_maxHistory: "maxHistory (pushHistory lbl snap uuid now s) = maxHistory s"
  by (simp add: pushHistory_def Let_def)

lemma pushHistory_result:
  fixes s :: EditorState and lbl snap uuid :: string and now :: int
  assumes "maxHistory s = 50" and "- 1 \<le> historyIndex s"
  defines "kept \<equiv> take (nat (historyIndex s + 1)) (history s)"
  defines "entry \<equiv> \<lparr>entry_id = uuid, label = lbl, timestamp = now, snapshot = snap\<rparr>"
  defines "s' \<equiv> pushHistory lbl snap uuid now s"
  shows "history s' = (if length kept + 1 > 50 then tl (kept @ [entry]) else kept @ [entry])"
    and "history s' \<noteq> []"
    and "last (history s') = entry"
    and "length (history s) \<le> 50 \<Longrightarrow> length (history s') \<le> 50"
proof -
  show h: "history s' = (if length kept + 1 > 50 then tl (kept @ [entry]) else kept @ [entry])"
    using assms(1,2) by (simp add: s'_def pushHistory_history kept_def entry_def Let_def)
  show "history s' \<noteq> []"
    using h by (cases kept) (auto split: if_splits)
  show "last (history s') = entry"
    using h by (cases kept) (auto split: if_splits)
  show "length (history s') \<le> 50" if "length (history s) \<le> 50"
  proof -
    have "length kept \<le> 50"
      using that by (simp add: kept_def)
    then show ?thesis
      using h by (auto split: if_splits)
  qed
qed

text \<open>
  C3: in a state of the store with the bound 50 and an index of at least \<open>-1\<close>,
  \<open>pushHistory\<close> keeps the entries up to and including the current index and drops the
  later ones, appends the new entry, removes the oldest entry when that makes more than
  50, and sets the index to the last position, which holds the new entry; nothing is
  left to redo. A log of at most 50 entries has at most 50 entries afterwards.
\<close>

theorem pushHistory_truncates_appends_evicts:
  assumes "maxHistory s = 50" and "- 1 \<le> historyIndex s"
  shows "let kept = take (nat (historyIndex s + 1)) (history s);
             entry = \<lparr>entry_id = uuid, label = lbl, timestamp = now, snapshot = snap\<rparr>;
             s' = pushHistory lbl snap uuid now s
         in history s' = (if length kept + 1 > 50 then tl (kept @ [entry]) else kept @ [entry])
            \<and> historyIndex s' = int (length (history s')) - 1
            \<and> history s' \<noteq> []
            \<and> history s' ! nat (historyIndex s') = entry
            \<and> \<not> canRedo s'
            \<and> (length (history s) \<le> 50 \<longrightarrow> length (history s') \<le> 50)"
proof -
  define s' where "s' = pushHistory lbl snap uuid now s"
  note r = pushHistory_result[OF assms, of lbl snap uuid now, folded s'_def]
  have i: "historyIndex s' = int (length (history s')) - 1"
    by (simp add: s'_def pushHistory_index)
  have at: "history s' ! nat (historyIndex s') =
              \<lparr>entry_id = uuid, label = lbl, timestamp = now, snapshot = snap\<rparr>"
    using r(2,3) i by (simp add: last_conv_nth nat_diff_distrib')
  have nr: "\<not> canRedo s'"
    using i by (simp add: canRedo_def)
  have bound: "length (history s) \<le> 50 \<longrightarrow> length (history s') \<le> 50"
    using r(4) by blast
  show ?thesis
    using r(1,2) i at nr bound by (simp add: Let_def s'_def)
qed

theorem pushHistory_truncates_appends_evicts_witness:
  "maxHistory (initialState\<lparr>history := replicate 50 \<lparr>entry_id = ''id-0'', label = ''Brush stroke'',
                                                     timestamp = 0, snapshot = ''{}''\<rparr>,
                             historyIndex := 49\<rparr>) = 50
   \<and> history (pushHistory ''Crop'' ''{}'' ''id-1'' 1000
        (initialState\<lparr>history := replicate 50 \<lparr>entry_id = ''id-0'', label = ''Brush stroke'',
                                                   timestamp = 0, snapshot = ''{}''\<rparr>,
                      historyIndex := 49\<rparr>))
       = replicate 49 \<lparr>entry_id = ''id-0'', label = ''Brush stroke'', timestamp = 0, snapshot = ''{}''\<rparr>
         @ [\<lparr>entry_id = ''id-1'', label = ''Crop'', timestamp = 1000, snapshot = ''{}''\<rparr>]
   \<and> historyIndex (pushHistory ''Crop'' ''{}'' ''id-1'' 1000
        (initialState\<lparr>history := replicate 50 \<lparr>entry_id = ''id-0'', label = ''Brush stroke'',
                                                   timestamp = 0, snapshot = ''{}''\<rparr>,
                      historyIndex := 49\<rparr>)) = 49
   \<and> history (pushHistory ''Crop'' ''{}'' ''id-1'' 1000
        (initialState\<lparr>history := [\<lparr>entry_id = ''id-a'', label = ''Draw shape'', timestamp = 1, snapshot = ''{}''\<rparr>,
                                   \<lparr>entry_id = ''id-b'', label = ''Erase'', timestamp = 2, snapshot = ''{}''\<rparr>],
                      historyIndex := 0\<rparr>))
       = [\<lparr>entry_id = ''id-a'', label = ''Draw shape'', timestamp = 1, snapshot = ''{}''\<rparr>,
          \<lparr>entry_id = ''id-1'', label = ''Crop'', timestamp = 1000, snapshot = ''{}''\<rparr>]
   \<and> historyIndex (pushHistory ''Crop'' ''{}'' ''id-1'' 1000
        (initialState\<lparr>history := [\<lparr>entry_id = ''id-a'', label = ''Draw shape'', timestamp = 1, snapshot = ''{}''\<rparr>,
                                   \<lparr>entry_id = ''id-b'', label = ''Erase'', timestamp = 2, snapshot = ''{}''\<rparr>],
                      historyIndex := 0\<rparr>)) = 1"
proof -
  define e0 where "e0 = \<lparr>entry_id = ''id-0'', label = ''Brush stroke'', timestamp = 0, snapshot = ''{}''\<rparr>"
  define full where "full = initialState\<lparr>history := replicate 50 e0, historyIndex := 49\<rparr>"
  define two where
    "two = initialState\<lparr>history := [\<lparr>entry_id = ''id-a'', label = ''Draw shape'', timestamp = 1, snapshot = ''{}''\<rparr>,
                                     \<lparr>entry_id = ''id-b'', label = ''Erase'', timestamp = 2, snapshot = ''{}''\<rparr>],
                        historyIndex := 0\<rparr>"
  have m: "maxHistory full = 50" "maxHistory two = 50"
    by (simp_all add: full_def two_def initialState_def)
  have l: "length (history full) \<le> 50" "length (history two) \<le> 50"
    by (simp_all add: full_def two_def)
  have i: "- 1 \<le> historyIndex full" "- 1 \<le> historyIndex two"
    by (simp_all add: full_def two_def)
  have t: "tl (replicate 50 e0 @ [x]) = replicate 49 e0 @ [x]" for x
    by simp
  from pushHistory_truncates_appends_evicts[OF m(1) i(1), of "''id-1''" "''Crop''" 1000 "''{}''"] l(1)
  have full': "history (pushHistory ''Crop'' ''{}'' ''id-1'' 1000 full)
                 = replicate 49 e0 @ [\<lparr>entry_id = ''id-1'', label = ''Crop'', timestamp = 1000, snapshot = ''{}''\<rparr>]
               \<and> historyIndex (pushHistory ''Crop'' ''{}'' ''id-1'' 1000 full) = 49"
    by (simp add: Let_def full_def t)
  from pushHistory_truncates_appends_evicts[OF m(2) i(2), of "''id-1''" "''Crop''" 1000 "''{}''"] l(2)
  have two': "history (pushHistory ''Crop'' ''{}'' ''id-1'' 1000 two)
                 = [\<lparr>entry_id = ''id-a'', label = ''Draw shape'', timestamp = 1, snapshot = ''{}''\<rparr>,
                    \<lparr>entry_id = ''id-1'', label = ''Crop'', timestamp = 1000, snapshot = ''{}''\<rparr>]
               \<and> historyIndex (pushHistory ''Crop'' ''{}'' ''id-1'' 1000 two) = 1"
    by (simp add: Let_def two_def)
  show ?thesis
    using m(1) full' two' unfolding full_def two_def e0_def by simp
qed

lemma historyInvariant_initial: "historyInvariant initialState"
  by (simp add: historyInvariant_def initialState_def)

lemma historyInvariant_push:
  assumes "historyInvariant s"
  shows "historyInvariant (pushHistory lbl snap uuid now s)"
proof -
  have a: "maxHistory s = 50" "length (history s) \<le> 50" "- 1 \<le> historyIndex s"
    using assms by (simp_all add: historyInvariant_def)
  define s' where "s' = pushHistory lbl snap uuid now s"
  note r = pushHistory_result[OF a(1,3), of lbl snap uuid now, folded s'_def]
  have i: "historyIndex s' = int (length (history s')) - 1"
    by (simp add: s'_def pushHistory_index)
  have m: "maxHistory s' = 50"
    using a(1) by (simp add: s'_def pushHistory_maxHistory)
  have "0 < length (history s')"
    using r(2) by simp
  then show ?thesis
    using r(4)[OF a(2)] i m by (simp add: historyInvariant_def s'_def[symmetric])
qed

lemma historyInvariant_undo: "historyInvariant s \<Longrightarrow> historyInvariant (undo s)"
  by (auto simp add: historyInvariant_def undo_def)

lemma historyInvariant_redo: "historyInvariant s \<Longrightarrow> historyInvariant (redo s)"
  by (auto simp add: historyInvariant_def redo_def)

lemma historyInvariant_call: "historyInvariant s \<Longrightarrow> historyInvariant (call c s)"
  by (cases c) (simp_all add: historyInvariant_push historyInvariant_undo historyInvariant_redo)

lemma calls_snoc: "calls (cs @ [c]) s = call c (calls cs s)"
  by (simp add: calls_def)

lemma historyInvariant_calls: "historyInvariant (calls cs initialState)"
  by (induction cs rule: rev_induct)
     (simp_all add: calls_snoc historyInvariant_call, simp add: calls_def historyInvariant_initial)


lemma history_nonempty_push:
  "historyInvariant s \<Longrightarrow> history (pushHistory lbl snap uuid now s) \<noteq> []"
  by (simp add: historyInvariant_def pushHistory_result(2))

lemma history_nonempty_call:
  assumes "historyInvariant s" and "isPush c \<or> history s \<noteq> []"
  shows "history (call c s) \<noteq> []"
proof (cases c)
  case (PushHistory lbl snap uuid now)
  then show ?thesis
    using assms(1) by (simp add: history_nonempty_push)
next
  case Undo
  then show ?thesis
    using assms(2) by (simp add: isPush_def undo_def)
next
  case Redo
  then show ?thesis
    using assms(2) by (simp add: isPush_def redo_def)
qed

lemma history_nonempty_calls:
  "\<exists>c\<in>set cs. isPush c \<Longrightarrow> history (calls cs initialState) \<noteq> []"
proof (induction cs rule: rev_induct)
  case Nil
  then show ?case by simp
next
  case (snoc c cs)
  have inv: "historyInvariant (calls cs initialState)"
    by (rule historyInvariant_calls)
  show ?case
  proof (cases "isPush c")
    case True
    then show ?thesis
      using inv by (simp add: calls_snoc history_nonempty_call)
  next
    case False
    then have "\<exists>c\<in>set cs. isPush c"
      using snoc.prems by auto
    then have "history (calls cs initialState) \<noteq> []"
      by (rule snoc.IH)
    then show ?thesis
      using inv by (simp add: calls_snoc history_nonempty_call)
  qed
qed

lemma undo_at_zero: "historyIndex s = 0 \<Longrightarrow> undo s = s"
  by (simp add: undo_def)

lemma redo_at_last: "historyIndex s = int (length (history s)) - 1 \<Longrightarrow> redo s = s"
  by (simp add: redo_def)

text \<open>
  C4, as the code has it: after any sequence of \<open>pushHistory\<close>, \<open>undo\<close> and \<open>redo\<close> calls
  from the initial state that contains a \<open>pushHistory\<close>, the log is not empty and the
  index is a position of it; after every sequence \<open>canUndo\<close> and \<open>canRedo\<close> are exactly
  \<open>index > 0\<close> and \<open>index < length - 1\<close>, \<open>undo\<close> at index 0 changes nothing and \<open>redo\<close> at
  the last index changes nothing.
\<close>

theorem history_index_in_bounds_once_pushed:
  "let s = calls cs initialState in
     ((\<exists>c\<in>set cs. isPush c) \<longrightarrow>
        history s \<noteq> [] \<and> 0 \<le> historyIndex s \<and> historyIndex s \<le> int (length (history s)) - 1)
     \<and> (canUndo s \<longleftrightarrow> historyIndex s > 0)
     \<and> (canRedo s \<longleftrightarrow> historyIndex s < int (length (history s)) - 1)
     \<and> (historyIndex s = 0 \<longrightarrow> undo s = s)
     \<and> (historyIndex s = int (length (history s)) - 1 \<longrightarrow> redo s = s)"
proof -
  define s where "s = calls cs initialState"
  have inv: "historyInvariant s"
    by (simp add: s_def historyInvariant_calls)
  have a: "(\<exists>c\<in>set cs. isPush c) \<longrightarrow>
        history s \<noteq> [] \<and> 0 \<le> historyIndex s \<and> historyIndex s \<le> int (length (history s)) - 1"
  proof
    assume "\<exists>c\<in>set cs. isPush c"
    then have ne: "history s \<noteq> []"
      by (simp add: s_def history_nonempty_calls)
    then have "0 < length (history s)" by simp
    then show "history s \<noteq> [] \<and> 0 \<le> historyIndex s \<and> historyIndex s \<le> int (length (history s)) - 1"
      using inv ne by (simp add: historyInvariant_def)
  qed
  show ?thesis
    using a by (simp add: Let_def s_def[symmetric] canUndo_def canRedo_def undo_at_zero redo_at_last)
qed

theorem history_index_in_bounds_once_pushed_witness:
  "isPush (PushHistory ''Draw shape'' ''{}'' ''id-1'' 1000)
   \<and> map label (history (calls [PushHistory ''Draw shape'' ''{}'' ''id-1'' 1000,
                                   PushHistory ''Crop'' ''{}'' ''id-2'' 2000, Undo] initialState))
       = [''Draw shape'', ''Crop'']
   \<and> historyIndex (calls [PushHistory ''Draw shape'' ''{}'' ''id-1'' 1000,
                           PushHistory ''Crop'' ''{}'' ''id-2'' 2000, Undo] initialState) = 0
   \<and> canRedo (calls [PushHistory ''Draw shape'' ''{}'' ''id-1'' 1000,
                      PushHistory ''Crop'' ''{}'' ''id-2'' 2000, Undo] initialState)
   \<and> \<not> canUndo (calls [PushHistory ''Draw shape'' ''{}'' ''id-1'' 1000,
                         PushHistory ''Crop'' ''{}'' ''id-2'' 2000, Undo] initialState)
   \<and> undo (calls [PushHistory ''Draw shape'' ''{}'' ''id-1'' 1000,
                   PushHistory ''Crop'' ''{}'' ''id-2'' 2000, Undo] initialState)
       = calls [PushHistory ''Draw shape'' ''{}'' ''id-1'' 1000,
                PushHistory ''Crop'' ''{}'' ''id-2'' 2000, Undo] initialState"
proof -
  define cs where "cs = [PushHistory ''Draw shape'' ''{}'' ''id-1'' 1000,
                         PushHistory ''Crop'' ''{}'' ''id-2'' 2000, Undo]"
  have p: "isPush (PushHistory ''Draw shape'' ''{}'' ''id-1'' 1000)"
    by (simp add: isPush_def)
  then have ex: "\<exists>c\<in>set cs. isPush c"
    by (simp add: cs_def)
  have h: "history (calls cs initialState) =
             [\<lparr>entry_id = ''id-1'', label = ''Draw shape'', timestamp = 1000, snapshot = ''{}''\<rparr>,
              \<lparr>entry_id = ''id-2'', label = ''Crop'', timestamp = 2000, snapshot = ''{}''\<rparr>]"
    by (simp add: cs_def calls_def pushHistory_def undo_def initialState_def js_slice_def
                  js_rel_index_def js_shift_def Let_def)
  have i: "historyIndex (calls cs initialState) = 0"
    by (simp add: cs_def calls_def pushHistory_def undo_def initialState_def js_slice_def
                  js_rel_index_def js_shift_def Let_def)
  from history_index_in_bounds_once_pushed[of cs] ex i
  have u: "undo (calls cs initialState) = calls cs initialState"
    by (simp add: Let_def)
  show ?thesis
    unfolding cs_def[symmetric]
    using p h i u by (simp add: canUndo_def canRedo_def)
qed

text \<open>
  The claim C4 as stated fails before the first \<open>pushHistory\<close>: the store starts with
  an empty log and the index \<open>-1\<close>, and a \<open>redo\<close> leaves both as they are, so the index is
  not within \<open>[0, length - 1]\<close>.
\<close>

theorem history_index_out_of_bounds_before_push:
  "\<not> (0 \<le> historyIndex (calls [Redo] initialState)
       \<and> historyIndex (calls [Redo] initialState)
           \<le> int (length (history (calls [Redo] initialState))) - 1)
   \<and> historyIndex (calls [Redo] initialState) = - 1
   \<and> history (calls [Redo] initialState) = []"
  by (simp add: calls_def redo_def initialState_def)

section \<open>The first object that satisfies a predicate\<close>

lemma length_update_first: "length (update_first p f xs) = length xs"
  by (induction xs) simp_all

lemma nth_update_first_other:
  "i < length xs \<Longrightarrow> \<not> p (xs ! i) \<Longrightarrow> update_first p f xs ! i = xs ! i"
proof (induction xs arbitrary: i)
  case Nil
  then show ?case by simp
next
  case (Cons x xs)
  then show ?case
    by (cases i) auto
qed

lemma find_update_first:
  assumes "\<And>x. p x \<Longrightarrow> p (f x)"
  shows "find p (update_first p f xs) = map_option f (find p xs)"
  using assms by (induction xs) simp_all

lemma find_map_preserving:
  assumes "\<And>x. p (g x) = p x"
  shows "find p (map g xs) = map_option g (find p xs)"
  using assms by (induction xs) simp_all

lemma find_map_fixed:
  assumes "\<And>x. p (g x) = p x" and "\<And>x. p x \<Longrightarrow> g x = x"
  shows "find p (map g xs) = find p xs"
  using assms by (induction xs) simp_all

section \<open>Crop\<close>

lemma math_round_of_int: "math_round (of_int n) = n"
  by (simp add: math_round_def)

lemma applyCrop_rejects:
  "obj_width r < 1 \<or> obj_height r < 1 \<Longrightarrow> applyCrop c r s = (c, s)"
  by (auto simp add: applyCrop_def Let_def)

lemma applyCrop_objects:
  assumes "1 \<le> obj_width r" and "1 \<le> obj_height r"
  shows "objects (fst (applyCrop c r s)) =
           update_first isDocBackground
             (\<lambda>bgRect. bgRect\<lparr>obj_left := 0, obj_top := 0,
                               obj_width := obj_width r, obj_height := obj_height r\<rparr>)
             (map (\<lambda>obj. obj\<lparr>obj_left := obj_left obj - obj_left r,
                              obj_top := obj_top obj - obj_top r\<rparr>) (objects c))"
  using assms by (simp add: applyCrop_def Let_def)

lemma applyCrop_document:
  assumes "1 \<le> obj_width r" and "1 \<le> obj_height r"
  shows "document (snd (applyCrop c r s)) =
           (document s)\<lparr>doc_width := of_int (math_round (obj_width r)),
                         doc_height := of_int (math_round (obj_height r))\<rparr>"
  using assms by (simp add: applyCrop_def Let_def setDocument_def mergeDocument_def)

text \<open>
  C6, as the code has it: a rectangle narrower or lower than 1 changes nothing.
  Otherwise every object that is not a background is shifted by \<open>(-left, -top)\<close> of the
  rectangle, the background rectangle (the first object marked as background) is put
  at \<open>(0, 0)\<close> with the rectangle's size, and the document gets the rounded size
  \<open>(Math.round(width), Math.round(height))\<close>, which is the rectangle's size when that is
  whole-numbered.
\<close>

theorem applyCrop_shifts_objects_and_rounds_size:
  "(obj_width r < 1 \<or> obj_height r < 1 \<longrightarrow> applyCrop c r s = (c, s))
   \<and> (1 \<le> obj_width r \<and> 1 \<le> obj_height r \<longrightarrow>
        length (objects (fst (applyCrop c r s))) = length (objects c)
        \<and> (\<forall>i < length (objects c). \<not> isDocBackground (objects c ! i) \<longrightarrow>
              objects (fst (applyCrop c r s)) ! i =
                (objects c ! i)\<lparr>obj_left := obj_left (objects c ! i) - obj_left r,
                                 obj_top := obj_top (objects c ! i) - obj_top r\<rparr>)
        \<and> find isDocBackground (objects (fst (applyCrop c r s))) =
            map_option (\<lambda>bgRect. bgRect\<lparr>obj_left := 0, obj_top := 0,
                                           obj_width := obj_width r, obj_height := obj_height r\<rparr>)
                       (find isDocBackground (objects c))
        \<and> doc_width (document (snd (applyCrop c r s))) = of_int (math_round (obj_width r))
        \<and> doc_height (document (snd (applyCrop c r s))) = of_int (math_round (obj_height r))
        \<and> (obj_width r = of_int w \<longrightarrow> doc_width (document (snd (applyCrop c r s))) = obj_width r)
        \<and> (obj_height r = of_int h \<longrightarrow> doc_height (document (snd (applyCrop c r s))) = obj_height r))"
proof -
  have rej: "obj_width r < 1 \<or> obj_height r < 1 \<longrightarrow> applyCrop c r s = (c, s)"
    using applyCrop_rejects by blast
  have acc: "length (objects (fst (applyCrop c r s))) = length (objects c)
        \<and> (\<forall>i < length (objects c). \<not> isDocBackground (objects c ! i) \<longrightarrow>
              objects (fst (applyCrop c r s)) ! i =
                (objects c ! i)\<lparr>obj_left := obj_left (objects c ! i) - obj_left r,
                                 obj_top := obj_top (objects c ! i) - obj_top r\<rparr>)
        \<and> find isDocBackground (objects (fst (applyCrop c r s))) =
            map_option (\<lambda>bgRect. bgRect\<lparr>obj_left := 0, obj_top := 0,
                                           obj_width := obj_width r, obj_height := obj_height r\<rparr>)
                       (find isDocBackground (objects c))
        \<and> doc_width (document (snd (applyCrop c r s))) = of_int (math_round (obj_width r))
        \<and> doc_height (document (snd (applyCrop c r s))) = of_int (math_round (obj_height r))
        \<and> (obj_width r = of_int w \<longrightarrow> doc_width (document (snd (applyCrop c r s))) = obj_width r)
        \<and> (obj_height r = of_int h \<longrightarrow> doc_height (document (snd (applyCrop c r s))) = obj_height r)"
    if ok: "1 \<le> obj_width r" "1 \<le> obj_height r"
  proof -
    let ?shift = "\<lambda>obj. obj\<lparr>obj_left := obj_left obj - obj_left r, obj_top := obj_top obj - obj_top r\<rparr>"
    let ?place = "\<lambda>bgRect. bgRect\<lparr>obj_left := 0, obj_top := 0,
                                    obj_width := obj_width r, obj_height := obj_height r\<rparr>"
    note objs = applyCrop_objects[OF ok, of c s]
    note doc = applyCrop_document[OF ok, of c s]
    have len: "length (objects (fst (applyCrop c r s))) = length (objects c)"
      by (simp add: objs length_update_first)
    have shifted: "objects (fst (applyCrop c r s)) ! i = ?shift (objects c ! i)"
      if "i < length (objects c)" "\<not> isDocBackground (objects c ! i)" for i
      using that by (simp add: objs nth_update_first_other)
    have fm: "find isDocBackground (map ?shift (objects c)) = map_option ?shift (find isDocBackground (objects c))"
      by (rule find_map_preserving) simp
    have bg: "find isDocBackground (objects (fst (applyCrop c r s))) =
                map_option ?place (find isDocBackground (objects c))"
      by (simp add: objs find_update_first fm option.map_comp comp_def)
    have dw: "doc_width (document (snd (applyCrop c r s))) = of_int (math_round (obj_width r))"
      by (simp add: doc)
    have dh: "doc_height (document (snd (applyCrop c r s))) = of_int (math_round (obj_height r))"
      by (simp add: doc)
    have iw: "obj_width r = of_int w \<longrightarrow> doc_width (document (snd (applyCrop c r s))) = obj_width r"
      by (simp add: dw math_round_of_int)
    have ih: "obj_height r = of_int h \<longrightarrow> doc_height (document (snd (applyCrop c r s))) = obj_height r"
      by (simp add: dh math_round_of_int)
    show ?thesis
      using len shifted bg dw dh iw ih by blast
  qed
  show ?thesis
    using rej acc by blast
qed

text \<open>The example of C6, and a rejected rectangle, through the theorem.\<close>

theorem applyCrop_shifts_objects_and_rounds_size_witness:
  "1 \<le> obj_width exampleCropRect \<and> 1 \<le> obj_height exampleCropRect
   \<and> doc_width (document exampleState) = 200 \<and> doc_height (document exampleState) = 200
   \<and> obj_left (objects exampleCanvas ! 1) = 15 \<and> obj_top (objects exampleCanvas ! 1) = 15
   \<and> doc_width (document (snd (applyCrop exampleCanvas exampleCropRect exampleState))) = 100
   \<and> doc_height (document (snd (applyCrop exampleCanvas exampleCropRect exampleState))) = 50
   \<and> obj_left (objects (fst (applyCrop exampleCanvas exampleCropRect exampleState)) ! 1) = 5
   \<and> obj_top (objects (fst (applyCrop exampleCanvas exampleCropRect exampleState)) ! 1) = 5
   \<and> find isDocBackground (objects (fst (applyCrop exampleCanvas exampleCropRect exampleState)))
       = Some (exampleBackground\<lparr>obj_width := 100, obj_height := 50\<rparr>)
   \<and> obj_width (exampleCropRect\<lparr>obj_width := 1 / 2\<rparr>) < 1
   \<and> applyCrop exampleCanvas (exampleCropRect\<lparr>obj_width := 1 / 2\<rparr>) exampleState
       = (exampleCanvas, exampleState)"
proof -
  have ok: "1 \<le> obj_width exampleCropRect \<and> 1 \<le> obj_height exampleCropRect"
    by (simp add: exampleCropRect_def)
  have w: "obj_width exampleCropRect = of_int 100" "obj_height exampleCropRect = of_int 50"
    by (simp_all add: exampleCropRect_def)
  have one: "1 < length (objects exampleCanvas)" "\<not> isDocBackground (objects exampleCanvas ! 1)"
    by (simp_all add: exampleCanvas_def exampleObject_def)
  have before: "doc_width (document exampleState) = 200" "doc_height (document exampleState) = 200"
               "obj_left (objects exampleCanvas ! 1) = 15" "obj_top (objects exampleCanvas ! 1) = 15"
    by (simp_all add: exampleState_def exampleCanvas_def exampleObject_def)
  have bg: "find isDocBackground (objects exampleCanvas) = Some exampleBackground"
    by (simp add: exampleCanvas_def exampleBackground_def)
  have small: "obj_width (exampleCropRect\<lparr>obj_width := 1 / 2\<rparr>) < 1"
    by simp
  note t = applyCrop_shifts_objects_and_rounds_size
             [of exampleCropRect exampleCanvas exampleState 100 50]
  from t ok w have dims:
    "doc_width (document (snd (applyCrop exampleCanvas exampleCropRect exampleState))) = 100"
    "doc_height (document (snd (applyCrop exampleCanvas exampleCropRect exampleState))) = 50"
    by simp_all
  from t ok one have obj:
    "objects (fst (applyCrop exampleCanvas exampleCropRect exampleState)) ! 1 =
       (objects exampleCanvas ! 1)\<lparr>obj_left := obj_left (objects exampleCanvas ! 1) - obj_left exampleCropRect,
                                    obj_top := obj_top (objects exampleCanvas ! 1) - obj_top exampleCropRect\<rparr>"
    by blast
  from t ok bg have placed:
    "find isDocBackground (objects (fst (applyCrop exampleCanvas exampleCropRect exampleState)))
       = Some (exampleBackground\<lparr>obj_width := 100, obj_height := 50\<rparr>)"
    by (simp add: exampleCropRect_def exampleBackground_def)
  from applyCrop_shifts_objects_and_rounds_size
         [of "exampleCropRect\<lparr>obj_width := 1 / 2\<rparr>" exampleCanvas exampleState 0 0] small
  have rejected: "applyCrop exampleCanvas (exampleCropRect\<lparr>obj_width := 1 / 2\<rparr>) exampleState
                    = (exampleCanvas, exampleState)"
    by blast
  have pos: "obj_left (objects (fst (applyCrop exampleCanvas exampleCropRect exampleState)) ! 1) = 5"
            "obj_top (objects (fst (applyCrop exampleCanvas exampleCropRect exampleState)) ! 1) = 5"
    using obj before by (simp_all add: exampleCropRect_def)
  show ?thesis
    using ok before dims pos placed small rejected by simp
qed

text \<open>
  The claim C6 as stated fails in two places. A rectangle of width 100.25 gives the
  document the width 100, not 100.25. And the background rectangle, at \<open>(0, 0)\<close> before
  the crop, is at \<open>(0, 0)\<close> after it, not shifted by \<open>(-10, -10)\<close>.
\<close>

theorem applyCrop_rounds_and_keeps_background_at_origin:
  "1 \<le> obj_width (exampleCropRect\<lparr>obj_width := 100.25\<rparr>)
   \<and> 1 \<le> obj_height (exampleCropRect\<lparr>obj_width := 100.25\<rparr>)
   \<and> doc_width (document (snd (applyCrop exampleCanvas (exampleCropRect\<lparr>obj_width := 100.25\<rparr>)
                                  exampleState))) = 100
   \<and> doc_width (document (snd (applyCrop exampleCanvas (exampleCropRect\<lparr>obj_width := 100.25\<rparr>)
                                  exampleState)))
       \<noteq> obj_width (exampleCropRect\<lparr>obj_width := 100.25\<rparr>)
   \<and> isDocBackground (objects exampleCanvas ! 0)
   \<and> obj_left (objects exampleCanvas ! 0) = 0
   \<and> obj_left exampleCropRect = 10
   \<and> obj_left (objects (fst (applyCrop exampleCanvas exampleCropRect exampleState)) ! 0) = 0
   \<and> obj_left (objects (fst (applyCrop exampleCanvas exampleCropRect exampleState)) ! 0)
       \<noteq> obj_left (objects exampleCanvas ! 0) - obj_left exampleCropRect"
  by (simp add: applyCrop_def Let_def setDocument_def mergeDocument_def math_round_def
                exampleCanvas_def exampleCropRect_def exampleBackground_def exampleObject_def
                exampleState_def)

section \<open>Rotation by a quarter turn\<close>

lemma normalized_90: "js_rem (js_rem 90 360 + 360) 360 = 90"
  by (simp add: js_rem_def)

lemma rotateObject_flag: "isDocBackground (rotateObject dW dH n d obj) = isDocBackground obj"
  by (simp add: rotateObject_def Let_def split: prod.split)

lemma rotateObject_background: "isDocBackground obj \<Longrightarrow> rotateObject dW dH n d obj = obj"
  by (simp add: rotateObject_def)

lemma rotateObject_90:
  "\<not> isDocBackground obj \<Longrightarrow>
   rotateObject dW dH 90 d obj =
     obj\<lparr>obj_left := dH - centerY obj - (obj_width obj * scaleX obj) / 2,
         obj_top := centerX obj - (obj_height obj * scaleY obj) / 2,
         angle := angle obj + d\<rparr>"
  by (simp add: rotateObject_def Let_def)

lemma rotateCanvas_90:
  "rotateCanvas 90 c =
     c\<lparr>objects := update_first isDocBackground
                      (\<lambda>bgRect. bgRect\<lparr>obj_left := 0, obj_top := 0,
                                        obj_width := docH c, obj_height := docW c\<rparr>)
                      (map (rotateObject (docW c) (docH c) 90 90) (objects c))\<rparr>"
  by (simp add: rotateCanvas_def Let_def normalized_90)

lemma rotateCanvas_90_length: "length (objects (rotateCanvas 90 c)) = length (objects c)"
  by (simp add: rotateCanvas_90 length_update_first)

lemma rotateCanvas_90_find:
  "find isDocBackground (objects (rotateCanvas 90 c)) =
     map_option (\<lambda>bgRect. bgRect\<lparr>obj_left := 0, obj_top := 0,
                                   obj_width := docH c, obj_height := docW c\<rparr>)
                (find isDocBackground (objects c))"
proof -
  have "find isDocBackground (map (rotateObject (docW c) (docH c) 90 90) (objects c))
          = find isDocBackground (objects c)"
    by (rule find_map_fixed) (simp_all add: rotateObject_flag rotateObject_background)
  then show ?thesis
    by (simp add: rotateCanvas_90 find_update_first)
qed

lemma rotateCanvas_90_size:
  "docW (rotateCanvas 90 c) = (if find isDocBackground (objects c) = None then docW c else docH c)"
  "docH (rotateCanvas 90 c) = (if find isDocBackground (objects c) = None then docH c else docW c)"
  by (auto simp add: docW_def docH_def rotateCanvas_90_find)
     (simp_all add: rotateCanvas_90)

lemma rotateCanvas_90_twice_size:
  "docW (rotateCanvas 90 (rotateCanvas 90 c)) = docW c"
  "docH (rotateCanvas 90 (rotateCanvas 90 c)) = docH c"
  by (simp_all add: rotateCanvas_90_size rotateCanvas_90_find)

lemma rotateCanvas_90_nth:
  assumes "i < length (objects c)" and "\<not> isDocBackground (objects c ! i)"
  shows "\<not> isDocBackground (objects (rotateCanvas 90 c) ! i)"
    and "centerX (objects (rotateCanvas 90 c) ! i) = docH c - centerY (objects c ! i)"
    and "centerY (objects (rotateCanvas 90 c) ! i) = centerX (objects c ! i)"
    and "obj_width (objects (rotateCanvas 90 c) ! i) = obj_width (objects c ! i)"
    and "obj_height (objects (rotateCanvas 90 c) ! i) = obj_height (objects c ! i)"
    and "scaleX (objects (rotateCanvas 90 c) ! i) = scaleX (objects c ! i)"
    and "scaleY (objects (rotateCanvas 90 c) ! i) = scaleY (objects c ! i)"
    and "angle (objects (rotateCanvas 90 c) ! i) = angle (objects c ! i) + 90"
proof -
  have nb: "\<not> isDocBackground (map (rotateObject (docW c) (docH c) 90 90) (objects c) ! i)"
    using assms by (simp add: rotateObject_flag)
  have eq: "objects (rotateCanvas 90 c) ! i = rotateObject (docW c) (docH c) 90 90 (objects c ! i)"
    using assms(1) nb by (simp add: rotateCanvas_90 nth_update_first_other)
  show "\<not> isDocBackground (objects (rotateCanvas 90 c) ! i)"
    using assms(2) by (simp add: eq rotateObject_flag)
  show "centerX (objects (rotateCanvas 90 c) ! i) = docH c - centerY (objects c ! i)"
    using assms(2) by (simp add: eq rotateObject_90 centerX_def)
  show "centerY (objects (rotateCanvas 90 c) ! i) = centerX (objects c ! i)"
    using assms(2) by (simp add: eq rotateObject_90 centerY_def)
  show "obj_width (objects (rotateCanvas 90 c) ! i) = obj_width (objects c ! i)"
    using assms(2) by (simp add: eq rotateObject_90)
  show "obj_height (objects (rotateCanvas 90 c) ! i) = obj_height (objects c ! i)"
    using assms(2) by (simp add: eq rotateObject_90)
  show "scaleX (objects (rotateCanvas 90 c) ! i) = scaleX (objects c ! i)"
    using assms(2) by (simp add: eq rotateObject_90)
  show "scaleY (objects (rotateCanvas 90 c) ! i) = scaleY (objects c ! i)"
    using assms(2) by (simp add: eq rotateObject_90)
  show "angle (objects (rotateCanvas 90 c) ! i) = angle (objects c ! i) + 90"
    using assms(2) by (simp add: eq rotateObject_90)
qed

lemma rotateCanvas_90_four_times_nth:
  assumes "i < length (objects c)" and "\<not> isDocBackground (objects c ! i)"
  defines "c4 \<equiv> rotateCanvas 90 (rotateCanvas 90 (rotateCanvas 90 (rotateCanvas 90 c)))"
  shows "\<not> isDocBackground (objects c4 ! i)"
    and "centerX (objects c4 ! i) = centerX (objects c ! i)"
    and "centerY (objects c4 ! i) = centerY (objects c ! i)"
    and "objects c4 ! i = (objects c ! i)\<lparr>angle := angle (objects c ! i) + 360\<rparr>"
proof -
  define c1 where "c1 = rotateCanvas 90 c"
  define c2 where "c2 = rotateCanvas 90 c1"
  define c3 where "c3 = rotateCanvas 90 c2"
  have c4: "c4 = rotateCanvas 90 c3"
    by (simp add: c4_def c1_def c2_def c3_def)
  have l1: "i < length (objects c1)"
    using assms(1) by (simp add: c1_def rotateCanvas_90_length)
  have l2: "i < length (objects c2)"
    using l1 by (simp add: c2_def rotateCanvas_90_length)
  have l3: "i < length (objects c3)"
    using l2 by (simp add: c3_def rotateCanvas_90_length)
  note s1 = rotateCanvas_90_nth[OF assms(1,2), folded c1_def]
  note s2 = rotateCanvas_90_nth[OF l1 s1(1), folded c2_def]
  note s3 = rotateCanvas_90_nth[OF l2 s2(1), folded c3_def]
  note s4 = rotateCanvas_90_nth[OF l3 s3(1), folded c4]
  have h2: "docH c2 = docH c"
    by (simp add: c2_def c1_def rotateCanvas_90_twice_size)
  have h3: "docH c3 = docH c1"
    by (simp add: c3_def c2_def rotateCanvas_90_twice_size)
  show nb: "\<not> isDocBackground (objects c4 ! i)"
    by (rule s4(1))
  show x: "centerX (objects c4 ! i) = centerX (objects c ! i)"
    by (simp add: s4(2) s3(3) s2(2) s1(3) h3)
  show y: "centerY (objects c4 ! i) = centerY (objects c ! i)"
    by (simp add: s4(3) s3(2) s2(3) s1(2) h2)
  have w: "obj_width (objects c4 ! i) = obj_width (objects c ! i)"
    by (simp add: s4(4) s3(4) s2(4) s1(4))
  have h: "obj_height (objects c4 ! i) = obj_height (objects c ! i)"
    by (simp add: s4(5) s3(5) s2(5) s1(5))
  have sx: "scaleX (objects c4 ! i) = scaleX (objects c ! i)"
    by (simp add: s4(6) s3(6) s2(6) s1(6))
  have sy: "scaleY (objects c4 ! i) = scaleY (objects c ! i)"
    by (simp add: s4(7) s3(7) s2(7) s1(7))
  have a: "angle (objects c4 ! i) = angle (objects c ! i) + 360"
    by (simp add: s4(8) s3(8) s2(8) s1(8))
  have l: "obj_left (objects c4 ! i) = obj_left (objects c ! i)"
    using x w sx by (simp add: centerX_def)
  have t: "obj_top (objects c4 ! i) = obj_top (objects c ! i)"
    using y h sy by (simp add: centerY_def)
  have f: "fill (objects c4 ! i) = fill (objects c ! i)"
  proof -
    have k: "fill (objects (rotateCanvas 90 d) ! i) = fill (objects d ! i)"
      if "i < length (objects d)" "\<not> isDocBackground (objects d ! i)" for d
    proof -
      have "\<not> isDocBackground (map (rotateObject (docW d) (docH d) 90 90) (objects d) ! i)"
        using that by (simp add: rotateObject_flag)
      then have "objects (rotateCanvas 90 d) ! i = rotateObject (docW d) (docH d) 90 90 (objects d ! i)"
        using that(1) by (simp add: rotateCanvas_90 nth_update_first_other)
      then show ?thesis
        using that(2) by (simp add: rotateObject_90)
    qed
    show ?thesis
      using k[OF assms(1,2)] k[OF l1 s1(1)] k[OF l2 s2(1)] k[OF l3 s3(1)]
      by (simp add: c4 c3_def c2_def c1_def)
  qed
  show "objects c4 ! i = (objects c ! i)\<lparr>angle := angle (objects c ! i) + 360\<rparr>"
    using l t w h sx sy a f nb assms(2) by (intro FabricObject.equality) simp_all
qed

text \<open>
  C7: four quarter turns in a row give back the document size, keep the number of
  objects, and put every object that is not a background back where it was: its
  centre, as \<open>rotateCanvas\<close> computes it, is the one before the first turn, and the
  object is the one before the first turn with a full turn added to its angle.
  Numbers are exact here; the claim allows for the rounding of floating point, which
  is not modelled.
\<close>

theorem rotateCanvas_90_four_times_restores:
  "length (objects (rotateCanvas 90 (rotateCanvas 90 (rotateCanvas 90 (rotateCanvas 90 c)))))
     = length (objects c)
   \<and> docW (rotateCanvas 90 (rotateCanvas 90 (rotateCanvas 90 (rotateCanvas 90 c)))) = docW c
   \<and> docH (rotateCanvas 90 (rotateCanvas 90 (rotateCanvas 90 (rotateCanvas 90 c)))) = docH c
   \<and> (\<forall>i < length (objects c). \<not> isDocBackground (objects c ! i) \<longrightarrow>
         \<not> isDocBackground
             (objects (rotateCanvas 90 (rotateCanvas 90 (rotateCanvas 90 (rotateCanvas 90 c)))) ! i)
         \<and> centerX (objects (rotateCanvas 90 (rotateCanvas 90 (rotateCanvas 90 (rotateCanvas 90 c)))) ! i)
             = centerX (objects c ! i)
         \<and> centerY (objects (rotateCanvas 90 (rotateCanvas 90 (rotateCanvas 90 (rotateCanvas 90 c)))) ! i)
             = centerY (objects c ! i)
         \<and> objects (rotateCanvas 90 (rotateCanvas 90 (rotateCanvas 90 (rotateCanvas 90 c)))) ! i
             = (objects c ! i)\<lparr>angle := angle (objects c ! i) + 360\<rparr>)"
proof -
  have len: "length (objects (rotateCanvas 90 (rotateCanvas 90 (rotateCanvas 90 (rotateCanvas 90 c)))))
               = length (objects c)"
    by (simp add: rotateCanvas_90_length)
  have w: "docW (rotateCanvas 90 (rotateCanvas 90 (rotateCanvas 90 (rotateCanvas 90 c)))) = docW c"
    by (simp add: rotateCanvas_90_twice_size)
  have h: "docH (rotateCanvas 90 (rotateCanvas 90 (rotateCanvas 90 (rotateCanvas 90 c)))) = docH c"
    by (simp add: rotateCanvas_90_twice_size)
  show ?thesis
    using len w h rotateCanvas_90_four_times_nth[of _ c] by blast
qed

theorem rotateCanvas_90_four_times_restores_witness:
  "docW (exampleCanvas\<lparr>objects := [exampleBackground\<lparr>obj_width := 300\<rparr>, exampleObject]\<rparr>) = 300
   \<and> docH (exampleCanvas\<lparr>objects := [exampleBackground\<lparr>obj_width := 300\<rparr>, exampleObject]\<rparr>) = 200
   \<and> docW (rotateCanvas 90
        (exampleCanvas\<lparr>objects := [exampleBackground\<lparr>obj_width := 300\<rparr>, exampleObject]\<rparr>)) = 200
   \<and> docH (rotateCanvas 90
        (exampleCanvas\<lparr>objects := [exampleBackground\<lparr>obj_width := 300\<rparr>, exampleObject]\<rparr>)) = 300
   \<and> centerX (objects (rotateCanvas 90
        (exampleCanvas\<lparr>objects := [exampleBackground\<lparr>obj_width := 300\<rparr>, exampleObject]\<rparr>)) ! 1) = 175
   \<and> centerY (objects (rotateCanvas 90
        (exampleCanvas\<lparr>objects := [exampleBackground\<lparr>obj_width := 300\<rparr>, exampleObject]\<rparr>)) ! 1) = 35
   \<and> docW (rotateCanvas 90 (rotateCanvas 90 (rotateCanvas 90 (rotateCanvas 90
        (exampleCanvas\<lparr>objects := [exampleBackground\<lparr>obj_width := 300\<rparr>, exampleObject]\<rparr>))))) = 300
   \<and> docH (rotateCanvas 90 (rotateCanvas 90 (rotateCanvas 90 (rotateCanvas 90
        (exampleCanvas\<lparr>objects := [exampleBackground\<lparr>obj_width := 300\<rparr>, exampleObject]\<rparr>))))) = 200
   \<and> centerX (objects (rotateCanvas 90 (rotateCanvas 90 (rotateCanvas 90 (rotateCanvas 90
        (exampleCanvas\<lparr>objects := [exampleBackground\<lparr>obj_width := 300\<rparr>, exampleObject]\<rparr>))))) ! 1) = 35
   \<and> centerY (objects (rotateCanvas 90 (rotateCanvas 90 (rotateCanvas 90 (rotateCanvas 90
        (exampleCanvas\<lparr>objects := [exampleBackground\<lparr>obj_width := 300\<rparr>, exampleObject]\<rparr>))))) ! 1) = 25"
proof -
  define c where "c = exampleCanvas\<lparr>objects := [exampleBackground\<lparr>obj_width := 300\<rparr>, exampleObject]\<rparr>"
  have objs: "objects c = [exampleBackground\<lparr>obj_width := 300\<rparr>, exampleObject]"
    by (simp add: c_def)
  have dims0: "docW c = 300" "docH c = 200"
    by (simp_all add: docW_def docH_def objs exampleBackground_def)
  have one: "1 < length (objects c)" "\<not> isDocBackground (objects c ! 1)"
    by (simp_all add: objs exampleObject_def)
  have centre: "centerX (objects c ! 1) = 35" "centerY (objects c ! 1) = 25"
    by (simp_all add: objs exampleObject_def centerX_def centerY_def)
  have turned: "docW (rotateCanvas 90 c) = 200" "docH (rotateCanvas 90 c) = 300"
    using dims0 by (simp_all add: rotateCanvas_90_size objs exampleBackground_def)
  have moved: "centerX (objects (rotateCanvas 90 c) ! 1) = 175"
              "centerY (objects (rotateCanvas 90 c) ! 1) = 35"
    using rotateCanvas_90_nth(2,3)[OF one] dims0 centre by simp_all
  from rotateCanvas_90_four_times_restores[of c] one
  have restored: "docW (rotateCanvas 90 (rotateCanvas 90 (rotateCanvas 90 (rotateCanvas 90 c)))) = docW c
      \<and> docH (rotateCanvas 90 (rotateCanvas 90 (rotateCanvas 90 (rotateCanvas 90 c)))) = docH c
      \<and> centerX (objects (rotateCanvas 90 (rotateCanvas 90 (rotateCanvas 90 (rotateCanvas 90 c)))) ! 1)
          = centerX (objects c ! 1)
      \<and> centerY (objects (rotateCanvas 90 (rotateCanvas 90 (rotateCanvas 90 (rotateCanvas 90 c)))) ! 1)
          = centerY (objects c ! 1)"
    by blast
  show ?thesis
    unfolding c_def[symmetric]
    using dims0 turned moved restored centre by simp
qed

section \<open>The eyedropper\<close>

lemma pixelHex_ignores_alpha: "pixelHex (pixel\<lparr>data_3 := a\<rparr>) = pixelHex pixel"
  by (simp add: pixelHex_def)

lemma sampleColor_sets_foreground:
  "viewportTransform c = Some vpt \<Longrightarrow>
   sampleColor (Some getImageData) c p s =
     Inr (s\<lparr>foregroundColor :=
              pixelHex (getImageData (math_round (px p * vpt_0 vpt + vpt_4 vpt))
                                     (math_round (py p * vpt_3 vpt + vpt_5 vpt)))\<rparr>)"
  by (simp add: sampleColor_def Let_def setForegroundColor_def)

text \<open>
  The other copy of \<open>sampleColor\<close> leaves the store alone when the pixel it reads is
  fully transparent.
\<close>

lemma sampleColor_v2_transparent:
  "(\<And>x y. data_3 (getImageData x y) = 0) \<Longrightarrow> sampleColor_v2 (Some getImageData) c p s = s"
  by (simp add: sampleColor_v2_def Let_def split: option.split)

text \<open>
  C8 (a fully transparent pixel leaves the foreground colour unchanged). Evaluated on
  \<open>sampleColor\<close> of \<open>components/canvas/CanvasToolHandler.tsx\<close>: with the foreground colour
  \<open>#ff0000\<close> and a rendering in which every pixel is \<open>(0, 0, 0, 0)\<close>, a click sets the
  foreground colour to \<open>#000000\<close>; with every pixel \<open>(18, 52, 86, 0)\<close> it sets \<open>#123456\<close>.
\<close>

theorem sampleColor_takes_transparent_pixel:
  "sampleColor (Some (\<lambda>x y. \<lparr>data_0 = 0, data_1 = 0, data_2 = 0, data_3 = 0\<rparr>))
               exampleCanvas \<lparr>px = 10, py = 10\<rparr> (exampleState\<lparr>foregroundColor := ''#ff0000''\<rparr>)
     = Inr (exampleState\<lparr>foregroundColor := ''#000000''\<rparr>)
   \<and> sampleColor (Some (\<lambda>x y. \<lparr>data_0 = 18, data_1 = 52, data_2 = 86, data_3 = 0\<rparr>))
               exampleCanvas \<lparr>px = 10, py = 10\<rparr> (exampleState\<lparr>foregroundColor := ''#ff0000''\<rparr>)
     = Inr (exampleState\<lparr>foregroundColor := ''#123456''\<rparr>)"
  by (simp add: sampleColor_def Let_def setForegroundColor_def pixelHex_def toString16.simps
                hexDigit_def js_slice_from_def js_rel_index_def exampleCanvas_def)

section \<open>The paint bucket\<close>

text \<open>
  \<open>handlePaintBucket\<close> of \<open>components/canvas/CanvasToolHandler.tsx\<close>: a selected object
  gets the colour, and with nothing selected the background rectangle gets it.
\<close>

lemma handlePaintBucket_selected:
  "activeObject c = Some (ActiveMember i) \<Longrightarrow> i < length (objects c) \<Longrightarrow>
   objects (handlePaintBucket c color) ! i = (objects c ! i)\<lparr>fill := color\<rparr>"
  by (simp add: handlePaintBucket_def setFill_def)

lemma handlePaintBucket_unselected:
  "handlePaintBucket c color
     = c\<lparr>objects := update_first isDocBackground (\<lambda>bgRect. bgRect\<lparr>fill := color\<rparr>) (objects c)\<rparr>"
  if "activeObject c = None"
proof -
  have "setFill color = (\<lambda>bgRect. bgRect\<lparr>fill := color\<rparr>)"
    by (rule ext) (simp add: setFill_def)
  then show ?thesis
    using that by (simp add: handlePaintBucket_def)
qed

lemma topmostHit_Some:
  "topmostHit hit objs n = Some i \<Longrightarrow>
   i < n \<and> \<not> isDocBackground (objs ! i) \<and> hit (objs ! i)
   \<and> (\<forall>j. i < j \<and> j < n \<longrightarrow> isDocBackground (objs ! j) \<or> \<not> hit (objs ! j))"
proof (induction n)
  case 0
  then show ?case by simp
next
  case (Suc n)
  show ?case
  proof (cases "\<not> isDocBackground (objs ! n) \<and> hit (objs ! n)")
    case True
    then have "i = n"
      using Suc.prems by simp
    then show ?thesis
      using True by auto
  next
    case False
    then have "topmostHit hit objs n = Some i"
      using Suc.prems by (auto split: if_splits)
    then have ih: "i < n \<and> \<not> isDocBackground (objs ! i) \<and> hit (objs ! i)
         \<and> (\<forall>j. i < j \<and> j < n \<longrightarrow> isDocBackground (objs ! j) \<or> \<not> hit (objs ! j))"
      by (rule Suc.IH)
    show ?thesis
      using ih False less_Suc_eq by auto
  qed
qed

lemma topmostHit_None:
  "topmostHit hit objs n = None \<Longrightarrow> \<forall>j < n. isDocBackground (objs ! j) \<or> \<not> hit (objs ! j)"
proof (induction n)
  case 0
  then show ?case by simp
next
  case (Suc n)
  then show ?case
    by (auto simp add: less_Suc_eq split: if_splits)
qed

text \<open>
  The other copy of \<open>handlePaintBucket\<close>, with nothing selected: the top-most object
  that is not a background and contains the pointer is filled, and the background
  rectangle when there is none.
\<close>

lemma handlePaintBucket_v2_unselected:
  assumes "activeObject c = None"
  shows "(topmostHit (\<lambda>obj. containsPoint obj p) (objects c) (length (objects c)) = Some i \<longrightarrow>
            handlePaintBucket_v2 containsPoint c color (Some p)
              = c\<lparr>objects := (objects c)[i := setFill color (objects c ! i)]\<rparr>)
       \<and> (topmostHit (\<lambda>obj. containsPoint obj p) (objects c) (length (objects c)) = None \<longrightarrow>
            handlePaintBucket_v2 containsPoint c color (Some p)
              = c\<lparr>objects := update_first isDocBackground (setFill color) (objects c)\<rparr>)"
  using assms by (simp add: handlePaintBucket_v2_def fillBelowPointer_def)

lemma handlePaintBucket_v2_example:
  "handlePaintBucket_v2 boxContainsPoint exampleCanvas ''#ff0000'' (Some \<lparr>px = 20, py = 20\<rparr>)
     = exampleCanvas\<lparr>objects := [exampleBackground, exampleObject\<lparr>fill := ''#ff0000''\<rparr>]\<rparr>"
  by (simp add: handlePaintBucket_v2_def fillBelowPointer_def boxContainsPoint_def setFill_def
                exampleCanvas_def exampleObject_def exampleBackground_def numeral_2_eq_2)

text \<open>
  C9 (with nothing selected, the top-most object under the pointer is filled, and the
  background only when there is none). Evaluated on \<open>handlePaintBucket\<close> of
  \<open>components/canvas/CanvasToolHandler.tsx\<close>: nothing is selected, the blue object is
  not a background and contains the point \<open>(20, 20)\<close>, and the call fills the background
  rectangle and leaves the object blue.
\<close>

theorem handlePaintBucket_fills_background_under_object:
  "activeObject exampleCanvas = None
   \<and> \<not> isDocBackground exampleObject
   \<and> boxContainsPoint exampleObject \<lparr>px = 20, py = 20\<rparr>
   \<and> handlePaintBucket exampleCanvas ''#ff0000''
       = exampleCanvas\<lparr>objects := [exampleBackground\<lparr>fill := ''#ff0000''\<rparr>, exampleObject]\<rparr>
   \<and> fill (objects (handlePaintBucket exampleCanvas ''#ff0000'') ! 1) = ''#0000ff''"
  by (simp add: handlePaintBucket_def setFill_def boxContainsPoint_def exampleCanvas_def
                exampleObject_def exampleBackground_def)

end
